theory Spec2Isabelle
  imports Main
begin

section \<open>Python values\<close>

text \<open>
  The script works on parsed JSON: whatever \<^verbatim>\<open>response.json()\<close> returns. A value is
  \<^verbatim>\<open>None\<close>, a bool, an int, a str, a list or a dict with string keys. A dict is an
  association list read with \<open>map_of\<close>; the keys of a parsed object are distinct.
  Strings are lists of 8-bit characters and numbers are integers: JSON floats and code
  points above 255 are outside the model.
\<close>

datatype json =
    JNull
  | JBool bool
  | JInt int
  | JStr string
  | JList "json list"
  | JObj "(string \<times> json) list"

text \<open>The exceptions that the statements of the script can raise.\<close>

datatype error =
    TypeError
  | AttributeError
  | KeyError
  | IndexError
  | ValueError
  | OSError
  | JSONDecodeError

text \<open>Sequencing of statements that may raise: the first exception ends the run.\<close>

definition bind_res :: "error + 'a \<Rightarrow> ('a \<Rightarrow> error + 'b) \<Rightarrow> error + 'b" where
  "bind_res m f = (case m of Inl e \<Rightarrow> Inl e | Inr x \<Rightarrow> f x)"

subsection \<open>Built-in operations\<close>

text \<open>\<^verbatim>\<open>bool(v)\<close>: what \<^verbatim>\<open>if v\<close>, \<^verbatim>\<open>not v\<close>, \<^verbatim>\<open>and\<close> and \<^verbatim>\<open>or\<close> test.\<close>

fun truthy :: "json \<Rightarrow> bool" where
  "truthy JNull = False"
| "truthy (JBool b) = b"
| "truthy (JInt i) = (i \<noteq> 0)"
| "truthy (JStr s) = (s \<noteq> [])"
| "truthy (JList xs) = (xs \<noteq> [])"
| "truthy (JObj kvs) = (kvs \<noteq> [])"

text \<open>\<^verbatim>\<open>a or b\<close> on values.\<close>

definition py_or :: "json \<Rightarrow> json \<Rightarrow> json" where
  "py_or a b = (if truthy a then a else b)"

fun starts_with :: "string \<Rightarrow> string \<Rightarrow> bool" where
  "starts_with s [] = True"
| "starts_with [] (c # cs) = False"
| "starts_with (d # ds) (c # cs) = (d = c \<and> starts_with ds cs)"

fun str_contains :: "string \<Rightarrow> string \<Rightarrow> bool" where
  "str_contains [] sub = (sub = [])"
| "str_contains (d # ds) sub = (starts_with (d # ds) sub \<or> str_contains ds sub)"

text \<open>
  \<^verbatim>\<open>k in v\<close> for a string \<open>k\<close>: key membership in a dict, element membership in a
  list, substring test in a str; \<^verbatim>\<open>None\<close>, bools and ints are not iterable.
\<close>

fun py_contains :: "json \<Rightarrow> string \<Rightarrow> error + bool" where
  "py_contains (JObj kvs) k = Inr (map_of kvs k \<noteq> None)"
| "py_contains (JList xs) k = Inr (JStr k \<in> set xs)"
| "py_contains (JStr s) k = Inr (str_contains s k)"
| "py_contains v k = Inl TypeError"

text \<open>\<^verbatim>\<open>v[k]\<close> for a string \<open>k\<close>: only a dict can be subscripted by a string.\<close>

fun py_getitem :: "json \<Rightarrow> string \<Rightarrow> error + json" where
  "py_getitem (JObj kvs) k = (case map_of kvs k of None \<Rightarrow> Inl KeyError | Some x \<Rightarrow> Inr x)"
| "py_getitem v k = Inl TypeError"

text \<open>\<^verbatim>\<open>v[0]\<close>. A dict parsed from JSON has no key \<open>0\<close>.\<close>

fun py_index0 :: "json \<Rightarrow> error + json" where
  "py_index0 (JList []) = Inl IndexError"
| "py_index0 (JList (x # xs)) = Inr x"
| "py_index0 (JStr []) = Inl IndexError"
| "py_index0 (JStr (c # cs)) = Inr (JStr [c])"
| "py_index0 (JObj kvs) = Inl KeyError"
| "py_index0 v = Inl TypeError"

text \<open>\<^verbatim>\<open>v.get(k, d)\<close>: a method of dicts only.\<close>

fun py_get :: "json \<Rightarrow> string \<Rightarrow> json \<Rightarrow> error + json" where
  "py_get (JObj kvs) k d = Inr (case map_of kvs k of None \<Rightarrow> d | Some x \<Rightarrow> x)"
| "py_get v k d = Inl AttributeError"

text \<open>\<^verbatim>\<open>for x in v\<close>: the elements of a list, the characters of a str, the keys of a dict.\<close>

fun py_iter :: "json \<Rightarrow> error + json list" where
  "py_iter (JList xs) = Inr xs"
| "py_iter (JStr s) = Inr (map (\<lambda>c. JStr [c]) s)"
| "py_iter (JObj kvs) = Inr (map (\<lambda>kv. JStr (fst kv)) kvs)"
| "py_iter v = Inl TypeError"

text \<open>\<^verbatim>\<open>len(v)\<close>.\<close>

fun py_len :: "json \<Rightarrow> error + nat" where
  "py_len (JList xs) = Inr (length xs)"
| "py_len (JStr s) = Inr (length s)"
| "py_len (JObj kvs) = Inr (length kvs)"
| "py_len v = Inl TypeError"

text \<open>
  \<^verbatim>\<open>v[:60]\<close>, which the progress messages evaluate on the title. Only its failure matters
  here: a str or a list can be sliced, anything else raises (a dict raises TypeError
  before Python 3.12 and KeyError from 3.12 on).
\<close>

fun py_slice60 :: "json \<Rightarrow> error + json" where
  "py_slice60 (JStr s) = Inr (JStr (take 60 s))"
| "py_slice60 (JList xs) = Inr (JList (take 60 xs))"
| "py_slice60 v = Inl TypeError"

text \<open>\<^verbatim>\<open>', '.join(xs)\<close>: every element must be a str.\<close>

fun str_items :: "json list \<Rightarrow> error + string list" where
  "str_items [] = Inr []"
| "str_items (JStr s # xs) = bind_res (str_items xs) (\<lambda>ss. Inr (s # ss))"
| "str_items (v # xs) = Inl TypeError"

fun join_with :: "string \<Rightarrow> string list \<Rightarrow> string" where
  "join_with sep [] = []"
| "join_with sep [s] = s"
| "join_with sep (s # t # ss) = s @ sep @ join_with sep (t # ss)"

definition py_join :: "string \<Rightarrow> json list \<Rightarrow> error + string" where
  "py_join sep xs = bind_res (str_items xs) (\<lambda>ss. Inr (join_with sep ss))"

subsection \<open>Numbers and text\<close>

definition digit_char :: "nat \<Rightarrow> char" where
  "digit_char d = char_of (48 + d)"

fun str_of_nat :: "nat \<Rightarrow> string" where
  "str_of_nat n = (if n < 10 then [digit_char n] else str_of_nat (n div 10) @ [digit_char (n mod 10)])"

definition str_of_int :: "int \<Rightarrow> string" where
  "str_of_int i = (if i < 0 then CHR ''-'' # str_of_nat (nat (- i)) else str_of_nat (nat i))"

text \<open>
  \<^verbatim>\<open>str(v)\<close>, as an f-string formats a value. The text of a list or a dict is Python's
  \<^verbatim>\<open>repr\<close>, which is taken as a parameter.
\<close>

fun py_str :: "(json \<Rightarrow> string) \<Rightarrow> json \<Rightarrow> string" where
  "py_str rp JNull = ''None''"
| "py_str rp (JBool b) = (if b then ''True'' else ''False'')"
| "py_str rp (JInt i) = str_of_int i"
| "py_str rp (JStr s) = s"
| "py_str rp v = rp v"

text \<open>
  \<^verbatim>\<open>int(s)\<close> on a str: white space around the text is dropped, one sign may lead, and
  the digits may be separated by single underscores. The white-space characters are those
  of \<^verbatim>\<open>str.isspace\<close> below code point 256. The limit that recent interpreters put on the
  number of digits is not modelled.
\<close>

definition py_isspace :: "char \<Rightarrow> bool" where
  "py_isspace c = (of_char c \<in> {9, 10, 11, 12, 13, 28, 29, 30, 31, 32, 133, 160 :: nat})"

definition is_digit :: "char \<Rightarrow> bool" where
  "is_digit c = (48 \<le> (of_char c :: nat) \<and> (of_char c :: nat) \<le> 57)"

fun digits_value :: "string \<Rightarrow> nat \<Rightarrow> bool \<Rightarrow> nat option" where
  "digits_value [] acc after_digit = (if after_digit then Some acc else None)"
| "digits_value (c # cs) acc after_digit =
     (if is_digit c then digits_value cs (acc * 10 + (of_char c - 48)) True
      else if c = CHR ''_'' \<and> after_digit then digits_value cs acc False
      else None)"

definition strip :: "string \<Rightarrow> string" where
  "strip s = rev (dropWhile py_isspace (rev (dropWhile py_isspace s)))"

definition int_of_str :: "string \<Rightarrow> int option" where
  "int_of_str s =
     (case strip s of
        [] \<Rightarrow> None
      | c # cs \<Rightarrow>
          if c = CHR ''-'' then map_option (\<lambda>n. - int n) (digits_value cs 0 False)
          else if c = CHR ''+'' then map_option int (digits_value cs 0 False)
          else map_option int (digits_value (c # cs) 0 False))"

text \<open>\<^verbatim>\<open>int(v)\<close>.\<close>

fun py_int :: "json \<Rightarrow> error + int" where
  "py_int (JInt i) = Inr i"
| "py_int (JBool b) = Inr (if b then 1 else 0)"
| "py_int (JStr s) = (case int_of_str s of None \<Rightarrow> Inl ValueError | Some i \<Rightarrow> Inr i)"
| "py_int v = Inl TypeError"

text \<open>
  \<^verbatim>\<open>table.get(k, d)\<close> on a dict literal with string keys: the key must be hashable, so a
  list or a dict raises; any other value that is not one of the keys gives the default.
\<close>

fun table_get :: "(string \<times> string) list \<Rightarrow> json \<Rightarrow> string \<Rightarrow> error + string" where
  "table_get tbl (JStr s) d = Inr (case map_of tbl s of None \<Rightarrow> d | Some x \<Rightarrow> x)"
| "table_get tbl (JList xs) d = Inl TypeError"
| "table_get tbl (JObj kvs) d = Inl TypeError"
| "table_get tbl v d = Inr d"

section \<open>The world outside the script\<close>

text \<open>
  What the script does to the outside is recorded as a log of events, oldest first: the
  HTTP requests, the pauses and the file write. The progress messages printed on the
  way are not recorded. What the outside answers is a parameter: each answer may depend
  on the log so far, so the same request may be answered differently at different times.
\<close>

datatype event =
    OrcidWorksGet string
  | OrcidWorkGet string json
  | CrossrefGet json
  | ScholarGet string
  | Sleep
  | FileWrite string json

text \<open>
  The outcome of \<^verbatim>\<open>requests.get\<close>, \<^verbatim>\<open>raise_for_status\<close> and \<^verbatim>\<open>response.json()\<close> together:
  a \<^verbatim>\<open>RequestException\<close>, the parsed body, or an exception of another class.
\<close>

datatype http_result = RequestFailed | Body json | Raised error

record world =
  py_repr :: "json \<Rightarrow> string"
  http_orcid_works :: "event list \<Rightarrow> string \<Rightarrow> http_result"
  http_orcid_work :: "event list \<Rightarrow> string \<Rightarrow> json \<Rightarrow> http_result"
  http_crossref :: "event list \<Rightarrow> json \<Rightarrow> http_result"
  google_scholar :: "event list \<Rightarrow> string \<Rightarrow> json list option"
  utcnow_isoformat :: "event list \<Rightarrow> string"
  write_file :: "event list \<Rightarrow> string \<Rightarrow> json \<Rightarrow> error option"
  script_root :: string

text \<open>Configuration (lines 13-16).\<close>

definition ORCID_ID :: string where
  "ORCID_ID = ''0000-0001-6184-8484''"

definition GOOGLE_SCHOLAR_ID :: string where
  "GOOGLE_SCHOLAR_ID = ''kGQy6cYAAAAJ''"

definition OUTPUT_FILE :: "world \<Rightarrow> string" where
  "OUTPUT_FILE w = script_root w @ ''/src/data/publications.json''"

definition USE_GOOGLE_SCHOLAR :: bool where
  "USE_GOOGLE_SCHOLAR = False"

section \<open>Fetching from ORCID\<close>

text \<open>
  \<^verbatim>\<open>fetch_orcid_publications\<close> (lines 82-97) and \<^verbatim>\<open>fetch_work_details\<close> (lines 99-113):
  a \<^verbatim>\<open>RequestException\<close> is caught and gives \<^verbatim>\<open>None\<close>; any other exception escapes.
\<close>

definition fetch_orcid_publications ::
  "world \<Rightarrow> string \<Rightarrow> event list \<Rightarrow> event list \<times> (error + json)" where
  "fetch_orcid_publications w orcid_id log =
     (log @ [OrcidWorksGet orcid_id],
      case http_orcid_works w log orcid_id of
        RequestFailed \<Rightarrow> Inr JNull
      | Body j \<Rightarrow> Inr j
      | Raised e \<Rightarrow> Inl e)"

definition fetch_work_details ::
  "world \<Rightarrow> string \<Rightarrow> json \<Rightarrow> event list \<Rightarrow> event list \<times> (error + json)" where
  "fetch_work_details w orcid_id put_code log =
     (log @ [OrcidWorkGet orcid_id put_code],
      case http_orcid_work w log orcid_id put_code of
        RequestFailed \<Rightarrow> Inr JNull
      | Body j \<Rightarrow> Inr j
      | Raised e \<Rightarrow> Inl e)"

section \<open>Fetching from CrossRef\<close>

text \<open>
  The dict \<^verbatim>\<open>result\<close> of \<^verbatim>\<open>fetch_crossref_details\<close>. Four keys and
  \<^verbatim>\<open>references_count\<close> are set only under a condition: there \<open>None\<close> is the missing key.
  The other keys are always set, so a returned dict is never empty.
\<close>

record crossref =
  cr_authors :: "json option"
  cr_title :: "json option"
  cr_journal :: "json option"
  cr_year :: "json option"
  cr_doi :: json
  cr_url :: json
  cr_type :: json
  cr_is_preprint :: bool
  cr_abstract :: json
  cr_citations :: json
  cr_publisher :: json
  cr_volume :: json
  cr_issue :: json
  cr_pages :: json
  cr_references_count :: "json option"

text \<open>Lines 137-144: the loop over \<^verbatim>\<open>message['author']\<close>.\<close>

fun author_names :: "world \<Rightarrow> json list \<Rightarrow> error + json list" where
  "author_names w [] = Inr []"
| "author_names w (author # rest) =
     bind_res (py_get author ''given'' (JStr [])) (\<lambda>given.
     bind_res (py_get author ''family'' (JStr [])) (\<lambda>family.
     bind_res (author_names w rest) (\<lambda>names.
       Inr (if truthy given \<and> truthy family
            then JStr (py_str (py_repr w) given @ '' '' @ py_str (py_repr w) family) # names
            else if truthy family then family # names
            else names))))"

text \<open>Lines 136-145.\<close>

definition crossref_authors :: "world \<Rightarrow> json \<Rightarrow> error + json option" where
  "crossref_authors w message =
     bind_res (py_contains message ''author'') (\<lambda>has.
       if \<not> has then Inr None
       else
         bind_res (py_getitem message ''author'') (\<lambda>a.
         bind_res (py_iter a) (\<lambda>items.
         bind_res (author_names w items) (\<lambda>names.
           if names = [] then Inr (Some JNull)
           else bind_res (py_join '', '' names) (\<lambda>s. Inr (Some (JStr s)))))))"

text \<open>Lines 148-149 and 152-153: \<^verbatim>\<open>if key in message and message[key]: ... message[key][0]\<close>.\<close>

definition crossref_first :: "json \<Rightarrow> string \<Rightarrow> error + json option" where
  "crossref_first message key =
     bind_res (py_contains message key) (\<lambda>has.
       if \<not> has then Inr None
       else
         bind_res (py_getitem message key) (\<lambda>v.
           if \<not> truthy v then Inr None
           else bind_res (py_index0 v) (\<lambda>x. Inr (Some x))))"

text \<open>
  Lines 157-159 (and 161-163, 165-167):
  \<^verbatim>\<open>pub_date = d.get('date-parts', [[]])[0]; if pub_date: result['year'] = pub_date[0]\<close>.
\<close>

definition date_year :: "json \<Rightarrow> error + json option" where
  "date_year d =
     bind_res (py_get d ''date-parts'' (JList [JList []])) (\<lambda>parts.
     bind_res (py_index0 parts) (\<lambda>pub_date.
       if truthy pub_date then bind_res (py_index0 pub_date) (\<lambda>y. Inr (Some y))
       else Inr None))"

text \<open>Lines 156-167: the \<^verbatim>\<open>if\<close>/\<^verbatim>\<open>elif\<close> chain over the three date keys.\<close>

definition crossref_year :: "json \<Rightarrow> error + json option" where
  "crossref_year message =
     bind_res (py_contains message ''published'') (\<lambda>h1.
       if h1 then bind_res (py_getitem message ''published'') date_year
       else
         bind_res (py_contains message ''published-print'') (\<lambda>h2.
           if h2 then bind_res (py_getitem message ''published-print'') date_year
           else
             bind_res (py_contains message ''published-online'') (\<lambda>h3.
               if h3 then bind_res (py_getitem message ''published-online'') date_year
               else Inr None)))"

text \<open>Lines 175-181.\<close>

definition crossref_type_mapping :: "(string \<times> string) list" where
  "crossref_type_mapping =
     [(''journal-article'', ''Research Article''),
      (''proceedings-article'', ''Conference Paper''),
      (''book-chapter'', ''Book Chapter''),
      (''book'', ''Book''),
      (''dissertation'', ''Dissertation'')]"

text \<open>Lines 196-197.\<close>

definition crossref_references :: "json \<Rightarrow> error + json option" where
  "crossref_references message =
     bind_res (py_contains message ''reference'') (\<lambda>has.
       if has then
         bind_res (py_getitem message ''reference'') (\<lambda>r.
         bind_res (py_len r) (\<lambda>n. Inr (Some (JInt (int n)))))
       else Inr None)"

text \<open>
  Lines 129-199: from the parsed response to \<^verbatim>\<open>result\<close>; \<open>Inr None\<close> is the
  \<^verbatim>\<open>return None\<close> of line 130.
\<close>

definition crossref_extract :: "world \<Rightarrow> json \<Rightarrow> error + crossref option" where
  "crossref_extract w data =
     bind_res (py_contains data ''message'') (\<lambda>has.
       if \<not> has then Inr None
       else
         bind_res (py_getitem data ''message'') (\<lambda>message.
         bind_res (crossref_authors w message) (\<lambda>a.
         bind_res (crossref_first message ''title'') (\<lambda>t.
         bind_res (crossref_first message ''container-title'') (\<lambda>j.
         bind_res (crossref_year message) (\<lambda>y.
         bind_res (py_get message ''DOI'' JNull) (\<lambda>d.
         bind_res (py_get message ''URL'' JNull) (\<lambda>u.
         bind_res (py_get message ''type'' (JStr [])) (\<lambda>pub_type.
         bind_res (table_get crossref_type_mapping pub_type ''Publication'') (\<lambda>ty.
         bind_res (py_get message ''abstract'' (JStr [])) (\<lambda>ab.
         bind_res (py_get message ''is-referenced-by-count'' (JInt 0)) (\<lambda>ci.
         bind_res (py_get message ''publisher'' (JStr [])) (\<lambda>pu.
         bind_res (py_get message ''volume'' (JStr [])) (\<lambda>vo.
         bind_res (py_get message ''issue'' (JStr [])) (\<lambda>iss.
         bind_res (py_get message ''page'' (JStr [])) (\<lambda>pa.
         bind_res (crossref_references message) (\<lambda>rc.
           Inr (Some \<lparr>
             cr_authors = a,
             cr_title = t,
             cr_journal = j,
             cr_year = y,
             cr_doi = d,
             cr_url = py_or u (if truthy d then JStr (''https://doi.org/'' @ py_str (py_repr w) d)
                               else JNull),
             cr_type = JStr ty,
             cr_is_preprint = (pub_type = JStr ''posted-content'' \<or> pub_type = JStr ''preprint''),
             cr_abstract = ab,
             cr_citations = ci,
             cr_publisher = pu,
             cr_volume = vo,
             cr_issue = iss,
             cr_pages = pa,
             cr_references_count = rc \<rparr>))))))))))))))))))"

text \<open>
  \<^verbatim>\<open>fetch_crossref_details\<close> (lines 115-203). A falsy DOI returns \<^verbatim>\<open>None\<close> without a
  request. Everything after the request runs under \<^verbatim>\<open>except Exception\<close>, so a failed
  request and any exception raised while reading the response give \<^verbatim>\<open>None\<close> as well.
\<close>

definition fetch_crossref_details ::
  "world \<Rightarrow> json \<Rightarrow> event list \<Rightarrow> event list \<times> crossref option" where
  "fetch_crossref_details w doi_v log =
     (if \<not> truthy doi_v then (log, None)
      else
        (log @ [CrossrefGet doi_v],
         case http_crossref w log doi_v of
           Body data \<Rightarrow> (case crossref_extract w data of Inl e \<Rightarrow> None | Inr r \<Rightarrow> r)
         | RequestFailed \<Rightarrow> None
         | Raised e \<Rightarrow> None))"

section \<open>Parsing the ORCID works\<close>

text \<open>\<^verbatim>\<open>extract_authors_from_work_detail\<close> (lines 212-241); lines 228-236 are the loop.\<close>

fun credit_names :: "json list \<Rightarrow> error + json list" where
  "credit_names [] = Inr []"
| "credit_names (contributor # rest) =
     (if \<not> truthy contributor then credit_names rest
      else
        bind_res (py_get contributor ''credit-name'' JNull) (\<lambda>credit_name_data.
        bind_res (if truthy credit_name_data then py_get credit_name_data ''value'' JNull
                  else Inr JNull) (\<lambda>credit_name.
        bind_res (credit_names rest) (\<lambda>names.
          Inr (if truthy credit_name then credit_name # names else names)))))"

definition extract_authors_from_work_detail :: "json \<Rightarrow> error + json" where
  "extract_authors_from_work_detail work_detail =
     (if \<not> truthy work_detail then Inr JNull
      else
        bind_res (py_get work_detail ''contributors'' JNull) (\<lambda>contributors_data.
          if \<not> truthy contributors_data then Inr JNull
          else
            bind_res (py_get contributors_data ''contributor'' (JList [])) (\<lambda>contributors.
              if \<not> truthy contributors then Inr JNull
              else
                bind_res (py_iter contributors) (\<lambda>items.
                bind_res (credit_names items) (\<lambda>names.
                  if names \<noteq> [] then bind_res (py_join '', '' names) (\<lambda>s. Inr (JStr s))
                  else Inr JNull)))))"

text \<open>The dict \<^verbatim>\<open>publication\<close> of lines 319-334; its keys never change.\<close>

record publication =
  title :: json
  authors :: json
  journal :: json
  year :: json
  doi :: json
  url :: json
  type :: json
  citations :: json
  abstract :: json
  publisher :: json
  volume :: json
  issue :: json
  pages :: json
  references_count :: json

text \<open>The locals that lines 266-283 read from a work summary.\<close>

record summary =
  s_put_code :: json
  s_title :: json
  s_year :: json
  s_journal_title :: json
  s_pub_type :: json

text \<open>Lines 257-263: the first work summary of a group; \<open>Inr None\<close> is \<^verbatim>\<open>continue\<close>.\<close>

definition first_summary :: "json \<Rightarrow> error + json option" where
  "first_summary grp =
     bind_res (py_get grp ''work-summary'' (JList [])) (\<lambda>work_summary_list.
       if \<not> truthy work_summary_list then Inr None
       else
         bind_res (py_index0 work_summary_list) (\<lambda>work_summary.
           if \<not> truthy work_summary then Inr None else Inr (Some work_summary)))"

text \<open>Lines 266-283.\<close>

definition read_summary :: "json \<Rightarrow> error + summary" where
  "read_summary work_summary =
     bind_res (py_get work_summary ''put-code'' JNull) (\<lambda>pc.
     bind_res (py_get work_summary ''title'' (JObj [])) (\<lambda>t1.
     bind_res (py_get t1 ''title'' (JObj [])) (\<lambda>t2.
     bind_res (py_get t2 ''value'' (JStr ''Untitled'')) (\<lambda>t.
     bind_res (py_get work_summary ''publication-date'' JNull) (\<lambda>pub_date.
     bind_res (if truthy pub_date
               then bind_res (py_get pub_date ''year'' (JObj [])) (\<lambda>y. py_get y ''value'' JNull)
               else Inr JNull) (\<lambda>y.
     bind_res (py_get work_summary ''journal-title'' JNull) (\<lambda>jt.
     bind_res (if truthy jt then py_get jt ''value'' (JStr []) else Inr (JStr [])) (\<lambda>j.
     bind_res (py_get work_summary ''type'' (JStr ''journal-article'')) (\<lambda>ty.
       Inr \<lparr> s_put_code = pc, s_title = t, s_year = y, s_journal_title = j,
             s_pub_type = ty \<rparr>)))))))))"

text \<open>Lines 290-296.\<close>

definition orcid_type_mapping :: "(string \<times> string) list" where
  "orcid_type_mapping =
     [(''journal-article'', ''Research Article''),
      (''conference-paper'', ''Conference Paper''),
      (''book'', ''Book''),
      (''book-chapter'', ''Book Chapter''),
      (''dissertation'', ''Dissertation'')]"

text \<open>Lines 306-310: the first external id of type \<^verbatim>\<open>doi\<close>.\<close>

fun find_doi :: "json list \<Rightarrow> error + json" where
  "find_doi [] = Inr JNull"
| "find_doi (ext_id # rest) =
     (if truthy ext_id then
        bind_res (py_get ext_id ''external-id-type'' JNull) (\<lambda>t.
          if t = JStr ''doi'' then py_get ext_id ''external-id-value'' JNull
          else find_doi rest)
      else find_doi rest)"

text \<open>Lines 300-310.\<close>

definition orcid_doi :: "json \<Rightarrow> error + json" where
  "orcid_doi work_summary =
     bind_res (py_get work_summary ''external-ids'' (JObj [])) (\<lambda>e.
     bind_res (if truthy e then py_get e ''external-id'' (JList []) else Inr (JList [])) (\<lambda>ids.
     bind_res (py_iter ids) find_doi))"

text \<open>Lines 313-316.\<close>

definition orcid_url :: "json \<Rightarrow> error + json" where
  "orcid_url work_summary =
     bind_res (py_get work_summary ''url'' JNull) (\<lambda>url_data.
       if truthy url_data then py_get url_data ''value'' JNull else Inr JNull)"

text \<open>Lines 290-334: the record built from the ORCID summary alone.\<close>

definition provisional :: "world \<Rightarrow> json \<Rightarrow> summary \<Rightarrow> error + publication" where
  "provisional w work_summary s =
     bind_res (table_get orcid_type_mapping (s_pub_type s) ''Publication'') (\<lambda>formatted_type.
     bind_res (orcid_doi work_summary) (\<lambda>d.
     bind_res (orcid_url work_summary) (\<lambda>u.
     bind_res (if truthy (s_year s) then bind_res (py_int (s_year s)) (\<lambda>i. Inr (JInt i))
               else Inr JNull) (\<lambda>y.
       Inr \<lparr> title = s_title s,
             authors = JStr ''Authors not available'',
             journal = s_journal_title s,
             year = y,
             doi = d,
             url = py_or u (if truthy d then JStr (''https://doi.org/'' @ py_str (py_repr w) d)
                            else JNull),
             type = JStr formatted_type,
             citations = JInt 0,
             abstract = JStr [],
             publisher = JStr [],
             volume = JStr [],
             issue = JStr [],
             pages = JStr [],
             references_count = JInt 0 \<rparr>))))"

text \<open>\<^verbatim>\<open>d.get(k)\<close> and \<^verbatim>\<open>d.get(k, default)\<close> on a key of \<^verbatim>\<open>crossref_data\<close> that may be missing.\<close>

definition cr_get :: "json option \<Rightarrow> json \<Rightarrow> json" where
  "cr_get field d = (case field of None \<Rightarrow> d | Some v \<Rightarrow> v)"

text \<open>Lines 348-363: \<^verbatim>\<open>publication.update({...})\<close> with the CrossRef result.\<close>

definition merge_crossref :: "publication \<Rightarrow> crossref \<Rightarrow> publication" where
  "merge_crossref p c =
     p \<lparr> title := py_or (cr_get (cr_title c) JNull) (title p),
         authors := py_or (cr_get (cr_authors c) JNull) (authors p),
         journal := py_or (cr_get (cr_journal c) JNull) (py_or (cr_publisher c) (journal p)),
         year := py_or (cr_get (cr_year c) JNull) (year p),
         doi := py_or (cr_doi c) (doi p),
         url := py_or (cr_url c) (url p),
         type := py_or (cr_type c) (type p),
         citations := cr_citations c,
         abstract := cr_abstract c,
         publisher := cr_publisher c,
         volume := cr_volume c,
         issue := cr_issue c,
         pages := cr_pages c,
         references_count := cr_get (cr_references_count c) (JInt 0) \<rparr>"

text \<open>
  Lines 367-371 and, word for word, lines 377-381: the author list of the ORCID work
  detail, asked for only when the put-code is truthy.
\<close>

definition work_detail_authors ::
  "world \<Rightarrow> string \<Rightarrow> json \<Rightarrow> publication \<Rightarrow> event list \<Rightarrow> event list \<times> (error + publication)" where
  "work_detail_authors w orcid_id put_code p log =
     (if truthy put_code then
        (case fetch_work_details w orcid_id put_code log of
           (log1, Inl e) \<Rightarrow> (log1, Inl e)
         | (log1, Inr work_detail) \<Rightarrow>
             (log1, bind_res (extract_authors_from_work_detail work_detail) (\<lambda>a.
                      Inr (if truthy a then p \<lparr> authors := a \<rparr> else p))))
      else (log, Inr p))"

text \<open>
  Lines 337-382: the enrichment of the provisional record. \<open>Inr None\<close> is the
  \<^verbatim>\<open>continue\<close> of line 345. A CrossRef result is a non-empty dict, so the test of line
  341 is whether a result came back. The messages of lines 338 and 382 slice the title.
\<close>

definition enrich ::
  "world \<Rightarrow> string \<Rightarrow> summary \<Rightarrow> publication \<Rightarrow> event list
     \<Rightarrow> event list \<times> (error + publication option)" where
  "enrich w orcid_id s p log =
     (if truthy (doi p) then
        (case py_slice60 (s_title s) of
           Inl e \<Rightarrow> (log, Inl e)
         | Inr shown \<Rightarrow>
            (case fetch_crossref_details w (doi p) log of
               (log1, Some crossref_data) \<Rightarrow>
                 if cr_is_preprint crossref_data then (log1, Inr None)
                 else (log1 @ [Sleep], Inr (Some (merge_crossref p crossref_data)))
             | (log1, None) \<Rightarrow>
                 (case work_detail_authors w orcid_id (s_put_code s) p log1 of
                    (log2, Inl e) \<Rightarrow> (log2, Inl e)
                  | (log2, Inr p') \<Rightarrow> (log2 @ [Sleep], Inr (Some p')))))
      else
        (case work_detail_authors w orcid_id (s_put_code s) p log of
           (log1, Inl e) \<Rightarrow> (log1, Inl e)
         | (log1, Inr p') \<Rightarrow>
            (case py_slice60 (s_title s) of
               Inl e \<Rightarrow> (log1, Inl e)
             | Inr shown \<Rightarrow> (log1, Inr (Some p')))))"

text \<open>
  Lines 257-386: the body of the loop for one group. \<open>Inr None\<close> is a group that adds
  nothing to \<^verbatim>\<open>publications\<close>, \<open>Inr (Some p)\<close> is \<^verbatim>\<open>publications.append(p)\<close>. The test
  of line 385 reads the locals \<^verbatim>\<open>title\<close> and \<^verbatim>\<open>year\<close> of lines 269 and 273.
\<close>

definition process_group ::
  "world \<Rightarrow> string \<Rightarrow> json \<Rightarrow> event list \<Rightarrow> event list \<times> (error + publication option)" where
  "process_group w orcid_id grp log =
     (case first_summary grp of
        Inl e \<Rightarrow> (log, Inl e)
      | Inr None \<Rightarrow> (log, Inr None)
      | Inr (Some work_summary) \<Rightarrow>
         (case read_summary work_summary of
            Inl e \<Rightarrow> (log, Inl e)
          | Inr s \<Rightarrow>
             if s_pub_type s = JStr ''preprint'' then
               (log, bind_res (py_slice60 (s_title s)) (\<lambda>shown. Inr None))
             else
               (case provisional w work_summary s of
                  Inl e \<Rightarrow> (log, Inl e)
                | Inr p \<Rightarrow>
                   (case enrich w orcid_id s p log of
                      (log1, Inl e) \<Rightarrow> (log1, Inl e)
                    | (log1, Inr None) \<Rightarrow> (log1, Inr None)
                    | (log1, Inr (Some p')) \<Rightarrow>
                        (log1, Inr (if truthy (s_title s) \<and> truthy (s_year s) then Some p'
                                    else None))))))"

text \<open>Lines 256-386: the loop, with the list \<^verbatim>\<open>publications\<close> built so far.\<close>

fun process_groups ::
  "world \<Rightarrow> string \<Rightarrow> json list \<Rightarrow> publication list \<Rightarrow> event list
     \<Rightarrow> event list \<times> (error + publication list)" where
  "process_groups w orcid_id [] publications log = (log, Inr publications)"
| "process_groups w orcid_id (grp # rest) publications log =
     (case process_group w orcid_id grp log of
        (log1, Inl e) \<Rightarrow> (log1, Inl e)
      | (log1, Inr None) \<Rightarrow> process_groups w orcid_id rest publications log1
      | (log1, Inr (Some p)) \<Rightarrow> process_groups w orcid_id rest (publications @ [p]) log1)"

text \<open>\<^verbatim>\<open>parse_orcid_works\<close> (lines 243-389).\<close>

definition parse_orcid_works ::
  "world \<Rightarrow> json \<Rightarrow> string \<Rightarrow> event list \<Rightarrow> event list \<times> (error + publication list)" where
  "parse_orcid_works w data orcid_id log =
     (if \<not> truthy data then (log, Inr [])
      else
        (case py_contains data ''group'' of
           Inl e \<Rightarrow> (log, Inl e)
         | Inr False \<Rightarrow> (log, Inr [])
         | Inr True \<Rightarrow>
            (case bind_res (py_getitem data ''group'') (\<lambda>groups.
                  bind_res (py_len groups) (\<lambda>total_works. py_iter groups)) of
               Inl e \<Rightarrow> (log, Inl e)
             | Inr groups \<Rightarrow> process_groups w orcid_id groups [] log)))"

section \<open>Saving and the main program\<close>

text \<open>A publication as the dict that is written out.\<close>

definition json_of_publication :: "publication \<Rightarrow> json" where
  "json_of_publication p =
     JObj [(''title'', title p), (''authors'', authors p), (''journal'', journal p),
           (''year'', year p), (''doi'', doi p), (''url'', url p), (''type'', type p),
           (''citations'', citations p), (''abstract'', abstract p),
           (''publisher'', publisher p), (''volume'', volume p), (''issue'', issue p),
           (''pages'', pages p), (''references_count'', references_count p)]"

text \<open>Lines 395-399: the dict \<^verbatim>\<open>data\<close> that is written.\<close>

definition envelope :: "string \<Rightarrow> json list \<Rightarrow> json" where
  "envelope now publications =
     JObj [(''last_updated'', JStr now),
           (''count'', JInt (int (length publications))),
           (''publications'', JList publications)]"

text \<open>
  \<^verbatim>\<open>save_publications\<close> (lines 391-407). Creating the directory, opening the file and
  dumping the JSON text are one step on the file system; when it fails the exception
  escapes.
\<close>

definition save_publications ::
  "world \<Rightarrow> json list \<Rightarrow> string \<Rightarrow> event list \<Rightarrow> event list \<times> (error + unit)" where
  "save_publications w publications output_file log =
     (let data = envelope (utcnow_isoformat w log) publications
      in (log @ [FileWrite output_file data],
          case write_file w log output_file data of
            Some e \<Rightarrow> Inl e
          | None \<Rightarrow> Inr ()))"

text \<open>
  \<^verbatim>\<open>fetch_google_scholar_publications\<close> (lines 18-79) runs the third-party scraper under
  \<^verbatim>\<open>except Exception\<close>: it returns a list of dicts or \<^verbatim>\<open>None\<close> and never raises. It is
  modelled by that result.
\<close>

definition fetch_google_scholar_publications ::
  "world \<Rightarrow> string \<Rightarrow> event list \<Rightarrow> event list \<times> json list option" where
  "fetch_google_scholar_publications w scholar_id log =
     (log @ [ScholarGet scholar_id], google_scholar w log scholar_id)"

text \<open>
  \<^verbatim>\<open>main\<close> (lines 409-434). \<^verbatim>\<open>publications\<close> is \<^verbatim>\<open>None\<close> or a list of dicts;
  \<^verbatim>\<open>not publications\<close> holds for \<^verbatim>\<open>None\<close> and for the empty list.
\<close>

definition main :: "world \<Rightarrow> event list \<Rightarrow> event list \<times> (error + int)" where
  "main w log =
     (case (if USE_GOOGLE_SCHOLAR \<and> GOOGLE_SCHOLAR_ID \<noteq> ''YOUR_SCHOLAR_ID''
            then fetch_google_scholar_publications w GOOGLE_SCHOLAR_ID log
            else (log, None)) of
        (log0, scholar) \<Rightarrow>
          (case (if scholar = None \<or> scholar = Some [] then
                   (case fetch_orcid_publications w ORCID_ID log0 of
                      (log1, Inl e) \<Rightarrow> (log1, Inl e)
                    | (log1, Inr data) \<Rightarrow>
                        if \<not> truthy data then (log1, Inr (Inl (1 :: int)))
                        else
                          (case parse_orcid_works w data ORCID_ID log1 of
                             (log2, Inl e) \<Rightarrow> (log2, Inl e)
                           | (log2, Inr ps) \<Rightarrow>
                               (log2, Inr (Inr (map json_of_publication ps)))))
                 else (log0, Inr (Inr (case scholar of None \<Rightarrow> [] | Some ps \<Rightarrow> ps)))) of
             (log2, Inl e) \<Rightarrow> (log2, Inl e)
           | (log2, Inr (Inl code)) \<Rightarrow> (log2, Inr code)
           | (log2, Inr (Inr publications)) \<Rightarrow>
               if publications = [] then (log2, Inr 1)
               else
                 (case save_publications w publications (OUTPUT_FILE w) log2 of
                    (log3, Inl e) \<Rightarrow> (log3, Inl e)
                  | (log3, Inr u) \<Rightarrow> (log3, Inr 0))))"

section \<open>The year, as the specification words it\<close>

text \<open>
  The specification takes the year from \<^verbatim>\<open>published\<close>, then \<^verbatim>\<open>published-print\<close>, then
  \<^verbatim>\<open>published-online\<close>, as the first element of the date-parts array. In CrossRef's
  data \<^verbatim>\<open>date-parts\<close> is an array of dates, each an array of year, month and day: the
  year is the first element of the first date. \<open>None\<close> is a year that is absent.
\<close>

definition spec_date_year :: "json \<Rightarrow> json option" where
  "spec_date_year d =
     (case bind_res (py_getitem d ''date-parts'') (\<lambda>parts.
           bind_res (py_index0 parts) py_index0) of
        Inl e \<Rightarrow> None
      | Inr y \<Rightarrow> Some y)"

definition spec_year :: "(string \<times> json) list \<Rightarrow> json option" where
  "spec_year m =
     (case map_of m ''published'' of
        Some d \<Rightarrow> spec_date_year d
      | None \<Rightarrow>
         (case map_of m ''published-print'' of
            Some d \<Rightarrow> spec_date_year d
          | None \<Rightarrow>
             (case map_of m ''published-online'' of
                Some d \<Rightarrow> spec_date_year d
              | None \<Rightarrow> None)))"

section \<open>Example inputs\<close>

text \<open>
  A world whose services give the same answer to every request, a work of ORCID with and
  without a publication date, a preprint, and CrossRef responses for the DOI of the work.
\<close>

definition fixed_world :: "http_result \<Rightarrow> http_result \<Rightarrow> http_result \<Rightarrow> world" where
  "fixed_world works detail crossref_answer =
     \<lparr> py_repr = (\<lambda>v. []),
       http_orcid_works = (\<lambda>log orcid_id. works),
       http_orcid_work = (\<lambda>log orcid_id put_code. detail),
       http_crossref = (\<lambda>log d. crossref_answer),
       google_scholar = (\<lambda>log scholar_id. None),
       utcnow_isoformat = (\<lambda>log. ''2024-01-01T00:00:00''),
       write_file = (\<lambda>log path data. None),
       script_root = ''/repo'' \<rparr>"

definition summary_foo :: "(string \<times> json) list" where
  "summary_foo =
     [(''put-code'', JInt 7),
      (''title'', JObj [(''title'', JObj [(''value'', JStr ''Foo'')])]),
      (''journal-title'', JObj [(''value'', JStr ''J. Foo'')]),
      (''type'', JStr ''journal-article''),
      (''external-ids'', JObj [(''external-id'',
          JList [JObj [(''external-id-type'', JStr ''doi''),
                       (''external-id-value'', JStr ''10.1/x'')]])])]"

definition summary_foo_dated :: "(string \<times> json) list" where
  "summary_foo_dated =
     (''publication-date'', JObj [(''year'', JObj [(''value'', JStr ''2020'')])]) # summary_foo"

definition group_foo_undated :: json where
  "group_foo_undated = JObj [(''work-summary'', JList [JObj summary_foo])]"

definition group_foo :: json where
  "group_foo = JObj [(''work-summary'', JList [JObj summary_foo_dated])]"

definition summary_preprint :: "(string \<times> json) list" where
  "summary_preprint =
     [(''title'', JObj [(''title'', JObj [(''value'', JStr ''Draft'')])]),
      (''publication-date'', JObj [(''year'', JObj [(''value'', JStr ''2021'')])]),
      (''type'', JStr ''preprint''),
      (''external-ids'', JObj [(''external-id'',
          JList [JObj [(''external-id-type'', JStr ''doi''),
                       (''external-id-value'', JStr ''10.1/x'')]])])]"

definition group_preprint :: json where
  "group_preprint = JObj [(''work-summary'', JList [JObj summary_preprint])]"

definition works_of :: "json list \<Rightarrow> json" where
  "works_of groups = JObj [(''group'', JList groups)]"

definition message_foo :: "(string \<times> json) list" where
  "message_foo =
     [(''title'', JList [JStr ''Foo'']),
      (''published-print'', JObj [(''date-parts'', JList [JList [JInt 2020, JInt 5]])]),
      (''published-online'', JObj [(''date-parts'', JList [JList [JInt 2019, JInt 12]])]),
      (''DOI'', JStr ''10.1/x''),
      (''publisher'', JStr ''Elsevier''),
      (''is-referenced-by-count'', JInt 5)]"

definition crossref_foo :: json where
  "crossref_foo = JObj [(''message'', JObj ((''type'', JStr ''journal-article'') # message_foo))]"

definition crossref_posted :: json where
  "crossref_posted = JObj [(''message'', JObj ((''type'', JStr ''posted-content'') # message_foo))]"

definition crossref_named :: json where
  "crossref_named = JObj [(''message'', JObj
     ((''author'', JList [JObj [(''given'', JStr ''A''), (''family'', JStr ''B'')],
                          JObj [(''family'', JStr ''C D'')]]) # message_foo))]"

definition detail_jane :: json where
  "detail_jane = JObj [(''contributors'', JObj [(''contributor'',
     JList [JObj [(''credit-name'', JObj [(''value'', JStr ''Jane Doe'')])]])])]"

text \<open>The record that lines 319-334 build for \<open>group_foo\<close>.\<close>

definition provisional_foo :: publication where
  "provisional_foo =
     \<lparr> title = JStr ''Foo'', authors = JStr ''Authors not available'',
       journal = JStr ''J. Foo'', year = JInt 2020, doi = JStr ''10.1/x'',
       url = JStr ''https://doi.org/10.1/x'', type = JStr ''Research Article'',
       citations = JInt 0, abstract = JStr [], publisher = JStr [], volume = JStr [],
       issue = JStr [], pages = JStr [], references_count = JInt 0 \<rparr>"

text \<open>The result of \<^verbatim>\<open>fetch_crossref_details\<close> on the response \<open>crossref_foo\<close>.\<close>

definition result_foo :: crossref where
  "result_foo =
     \<lparr> cr_authors = None, cr_title = Some (JStr ''Foo''), cr_journal = None,
       cr_year = Some (JInt 2020), cr_doi = JStr ''10.1/x'',
       cr_url = JStr ''https://doi.org/10.1/x'', cr_type = JStr ''Research Article'',
       cr_is_preprint = False, cr_abstract = JStr [], cr_citations = JInt 5,
       cr_publisher = JStr ''Elsevier'', cr_volume = JStr [], cr_issue = JStr [],
       cr_pages = JStr [], cr_references_count = None \<rparr>"

text \<open>The result of \<^verbatim>\<open>fetch_crossref_details\<close> on the response \<open>crossref_posted\<close>.\<close>

definition result_posted :: crossref where
  "result_posted = result_foo \<lparr> cr_type := JStr ''Publication'', cr_is_preprint := True \<rparr>"

text \<open>The locals that lines 266-283 read from \<open>summary_foo\<close>, which has no date.\<close>

definition locals_foo_undated :: summary where
  "locals_foo_undated =
     \<lparr> s_put_code = JInt 7, s_title = JStr ''Foo'', s_year = JNull,
       s_journal_title = JStr ''J. Foo'', s_pub_type = JStr ''journal-article'' \<rparr>"



section \<open>Sequencing\<close>

lemma bind_res_Inl [simp]: "bind_res (Inl e) f = Inl e"
  by (simp add: bind_res_def)

lemma bind_res_Inr [simp]: "bind_res (Inr x) f = f x"
  by (simp add: bind_res_def)

lemma bind_res_eq_Inr: "bind_res m f = Inr y \<longleftrightarrow> (\<exists>x. m = Inr x \<and> f x = Inr y)"
  by (cases m) simp_all

section \<open>The merge of CrossRef data\<close>

text \<open>
  C5. Overlaying a CrossRef result on a publication a second time changes nothing: for
  every publication \<open>p\<close> and every CrossRef result \<open>c\<close>, merging \<open>c\<close> into the merge of
  \<open>c\<close> and \<open>p\<close> gives the merge of \<open>c\<close> and \<open>p\<close>.
\<close>

theorem merge_crossref_idempotent:
  "merge_crossref (merge_crossref p c) c = merge_crossref p c"
  by (simp add: merge_crossref_def py_or_def)

text \<open>
  C2, as the claim states it, fails for the journal. The work \<open>group_foo\<close> has the ORCID
  journal title \<open>J. Foo\<close>; the CrossRef response \<open>crossref_foo\<close> has no \<^verbatim>\<open>container-title\<close>,
  so CrossRef supplies no journal; yet the merged record does not keep \<open>J. Foo\<close>: line
  351 puts CrossRef's publisher there.
\<close>

theorem merge_journal_counterexample:
  "crossref_extract (fixed_world RequestFailed RequestFailed (Body crossref_foo)) crossref_foo
     = Inr (Some result_foo)
   \<and> cr_journal result_foo = None
   \<and> journal provisional_foo = JStr ''J. Foo''
   \<and> journal (merge_crossref provisional_foo result_foo) = JStr ''Elsevier''
   \<and> parse_orcid_works (fixed_world RequestFailed RequestFailed (Body crossref_foo))
        (works_of [group_foo]) ''0000'' []
     = ([CrossrefGet (JStr ''10.1/x''), Sleep], Inr [merge_crossref provisional_foo result_foo])"
  by code_simp

text \<open>
  C2, amended. In the merge, the title, the authors, the year, the DOI, the URL and the
  type are CrossRef's value when that value is truthy, and the value of the provisional
  record otherwise (the key is missing or its value is falsy). The journal is CrossRef's
  journal when truthy, otherwise CrossRef's publisher when truthy, and the value of the
  provisional record only when both are falsy.
\<close>

theorem merge_crossref_fields:
  "title (merge_crossref p c) =
     (if truthy (cr_get (cr_title c) JNull) then cr_get (cr_title c) JNull else title p)
   \<and> authors (merge_crossref p c) =
     (if truthy (cr_get (cr_authors c) JNull) then cr_get (cr_authors c) JNull else authors p)
   \<and> year (merge_crossref p c) =
     (if truthy (cr_get (cr_year c) JNull) then cr_get (cr_year c) JNull else year p)
   \<and> doi (merge_crossref p c) = (if truthy (cr_doi c) then cr_doi c else doi p)
   \<and> url (merge_crossref p c) = (if truthy (cr_url c) then cr_url c else url p)
   \<and> type (merge_crossref p c) = (if truthy (cr_type c) then cr_type c else type p)
   \<and> journal (merge_crossref p c) =
     (if truthy (cr_get (cr_journal c) JNull) then cr_get (cr_journal c) JNull
      else if truthy (cr_publisher c) then cr_publisher c
      else journal p)"
  by (simp add: merge_crossref_def py_or_def)

theorem merge_crossref_fields_witness:
  "title (merge_crossref provisional_foo result_foo) = JStr ''Foo''
   \<and> authors (merge_crossref provisional_foo result_foo) = JStr ''Authors not available''
   \<and> year (merge_crossref provisional_foo result_foo) = JInt 2020
   \<and> journal (merge_crossref provisional_foo result_foo) = JStr ''Elsevier''"
  using merge_crossref_fields [of provisional_foo result_foo]
  by (simp add: provisional_foo_def result_foo_def cr_get_def)

section \<open>Saving\<close>

text \<open>
  C7. For every list of publications, \<^verbatim>\<open>save_publications\<close> writes one envelope whose
  \<^verbatim>\<open>count\<close> is the length of the list and whose \<^verbatim>\<open>publications\<close> is the list itself, in
  its order.
\<close>

theorem save_publications_count:
  "\<exists>data. fst (save_publications w pubs out log) = log @ [FileWrite out data]
     \<and> py_getitem data ''count'' = Inr (JInt (int (length pubs)))
     \<and> py_getitem data ''publications'' = Inr (JList pubs)"
  by (simp add: save_publications_def envelope_def Let_def)

section \<open>Skipped works\<close>

lemma read_summary_type:
  "read_summary ws = Inr s \<Longrightarrow> py_get ws ''type'' (JStr ''journal-article'') = Inr (s_pub_type s)"
  by (auto simp: read_summary_def bind_res_eq_Inr)

lemma provisional_doi: "provisional w ws s = Inr p \<Longrightarrow> orcid_doi ws = Inr (doi p)"
  by (auto simp: provisional_def bind_res_eq_Inr)

lemma crossref_extract_is_preprint:
  "crossref_extract w data = Inr (Some c) \<Longrightarrow> py_getitem data ''message'' = Inr message \<Longrightarrow>
   py_get message ''type'' (JStr []) = Inr t \<Longrightarrow>
   cr_is_preprint c = (t = JStr ''posted-content'' \<or> t = JStr ''preprint'')"
  by (auto simp: crossref_extract_def bind_res_eq_Inr split: if_splits)

text \<open>
  C3. A group whose first work summary has the type \<^verbatim>\<open>preprint\<close> adds no event to the
  log, so no request goes to CrossRef or to ORCID for it, and it appends no publication,
  whatever the services would answer. In the loop the group either raises (a malformed
  title) or leaves the list and the log as they were.
\<close>

theorem orcid_preprint_skipped:
  assumes "first_summary g = Inr (Some ws)"
    and "py_get ws ''type'' (JStr ''journal-article'') = Inr (JStr ''preprint'')"
  shows "fst (process_group w oid g log) = log
     \<and> (\<forall>q. snd (process_group w oid g log) \<noteq> Inr (Some q))
     \<and> (process_groups w oid (g # gs) pubs log = process_groups w oid gs pubs log
        \<or> (\<exists>e. process_groups w oid (g # gs) pubs log = (log, Inl e)))"
proof (cases "read_summary ws")
  case (Inl e)
  with assms show ?thesis by (simp add: process_group_def)
next
  case (Inr s)
  with assms(2) have "s_pub_type s = JStr ''preprint''"
    using read_summary_type by fastforce
  with Inr assms(1) show ?thesis
    by (cases "py_slice60 (s_title s)") (simp_all add: process_group_def)
qed

theorem orcid_preprint_skipped_witness:
  "first_summary group_preprint = Inr (Some (JObj summary_preprint))
   \<and> py_get (JObj summary_preprint) ''type'' (JStr ''journal-article'') = Inr (JStr ''preprint'')
   \<and> fst (process_group (fixed_world RequestFailed (Body detail_jane) (Body crossref_named))
            ''0000'' group_preprint []) = []
   \<and> parse_orcid_works (fixed_world RequestFailed (Body detail_jane) (Body crossref_named))
        (works_of [group_preprint]) ''0000'' [] = ([], Inr [])"
proof -
  have h1: "first_summary group_preprint = Inr (Some (JObj summary_preprint))"
    by code_simp
  have h2: "py_get (JObj summary_preprint) ''type'' (JStr ''journal-article'')
              = Inr (JStr ''preprint'')"
    by code_simp
  have "parse_orcid_works (fixed_world RequestFailed (Body detail_jane) (Body crossref_named))
          (works_of [group_preprint]) ''0000'' [] = ([], Inr [])"
    by code_simp
  with h1 h2 orcid_preprint_skipped [OF h1 h2] show ?thesis by simp
qed

text \<open>
  C4. Take a group whose work summary carries a DOI, and let the CrossRef lookup for that
  DOI succeed with a message whose type is \<^verbatim>\<open>posted-content\<close> or \<^verbatim>\<open>preprint\<close>. Then the
  group appends no publication, whatever type ORCID gave the work.
\<close>

theorem crossref_preprint_skipped:
  assumes "first_summary g = Inr (Some ws)"
    and "orcid_doi ws = Inr d" and "truthy d"
    and "http_crossref w log d = Body data"
    and "crossref_extract w data = Inr (Some c)"
    and "py_getitem data ''message'' = Inr message"
    and "py_get message ''type'' (JStr []) = Inr t"
    and "t = JStr ''posted-content'' \<or> t = JStr ''preprint''"
  shows "\<forall>q. snd (process_group w oid g log) \<noteq> Inr (Some q)"
proof -
  have pre: "cr_is_preprint c"
    using crossref_extract_is_preprint [OF assms(5) assms(6) assms(7)] assms(8) by simp
  have fetch: "fetch_crossref_details w d log = (log @ [CrossrefGet d], Some c)"
    using assms(3,4,5) by (simp add: fetch_crossref_details_def)
  have enr: "\<And>s p. doi p = d \<Longrightarrow> snd (enrich w oid s p log) \<noteq> Inr (Some q)" for q
    using fetch pre assms(3) by (simp add: enrich_def split: sum.splits)
  show ?thesis
  proof (cases "read_summary ws")
    case (Inl e)
    with assms(1) show ?thesis by (simp add: process_group_def)
  next
    case s: (Inr s)
    show ?thesis
    proof (cases "provisional w ws s")
      case (Inl e)
      with s assms(1) show ?thesis
        by (simp add: process_group_def bind_res_def split: sum.splits)
    next
      case (Inr p)
      then have "doi p = d" using provisional_doi assms(2) by fastforce
      then have "\<And>l q. enrich w oid s p log \<noteq> (l, Inr (Some q))"
        using enr by (metis snd_conv)
      with s Inr assms(1) show ?thesis
        by (auto simp: process_group_def bind_res_def split: sum.splits prod.splits option.splits)
    qed
  qed
qed

theorem crossref_preprint_skipped_witness:
  "first_summary group_foo = Inr (Some (JObj summary_foo_dated))
   \<and> orcid_doi (JObj summary_foo_dated) = Inr (JStr ''10.1/x'')
   \<and> crossref_extract (fixed_world RequestFailed RequestFailed (Body crossref_posted))
        crossref_posted = Inr (Some result_posted)
   \<and> (\<forall>q. snd (process_group (fixed_world RequestFailed RequestFailed (Body crossref_posted))
                  ''0000'' group_foo []) \<noteq> Inr (Some q))"
proof -
  let ?w = "fixed_world RequestFailed RequestFailed (Body crossref_posted)"
  let ?m = "JObj ((''type'', JStr ''posted-content'') # message_foo)"
  have h1: "first_summary group_foo = Inr (Some (JObj summary_foo_dated))" by code_simp
  have h2: "orcid_doi (JObj summary_foo_dated) = Inr (JStr ''10.1/x'')" by code_simp
  have h3: "truthy (JStr ''10.1/x'')" by simp
  have h4: "http_crossref ?w [] (JStr ''10.1/x'') = Body crossref_posted"
    by (simp add: fixed_world_def)
  have h5: "crossref_extract ?w crossref_posted = Inr (Some result_posted)" by code_simp
  have h6: "py_getitem crossref_posted ''message'' = Inr ?m"
    by (simp add: crossref_posted_def)
  have h7: "py_get ?m ''type'' (JStr []) = Inr (JStr ''posted-content'')" by simp
  have h8: "JStr ''posted-content'' = JStr ''posted-content'' \<or> JStr ''posted-content'' = JStr ''preprint''"
    by simp
  from crossref_preprint_skipped [OF h1 h2 h3 h4 h5 h6 h7 h8] h1 h2 h5 show ?thesis by blast
qed

section \<open>Malformed input\<close>

text \<open>
  C10, as the claim states it, fails. The number 5 is an input that is not \<^verbatim>\<open>None\<close> and
  has no key \<^verbatim>\<open>group\<close>; for it the test \<^verbatim>\<open>'group' not in data\<close> of line 249 raises
  TypeError, so \<^verbatim>\<open>parse_orcid_works\<close> raises instead of returning the empty list.
\<close>

theorem non_dict_input_counterexample:
  "parse_orcid_works (fixed_world RequestFailed RequestFailed RequestFailed) (JInt 5) ''0000'' []
     = ([], Inl TypeError)
   \<and> py_contains (JInt 5) ''group'' = Inl TypeError"
  by code_simp

text \<open>
  C10, amended. \<^verbatim>\<open>parse_orcid_works\<close> returns the empty list, raises nothing and asks no
  service when \<^verbatim>\<open>data\<close> is \<^verbatim>\<open>None\<close> or another falsy value, a dict without the key
  \<^verbatim>\<open>group\<close>, a list without the element \<^verbatim>\<open>group\<close> or a str without that substring. For
  a non-zero int or \<^verbatim>\<open>True\<close> it raises TypeError. A group whose \<^verbatim>\<open>work-summary\<close> list
  is empty, or whose first summary is \<^verbatim>\<open>null\<close>, is skipped: it raises nothing, appends
  nothing, and the loop goes on with the same list and log.
\<close>

theorem parse_orcid_works_malformed:
  "(\<not> truthy data
      \<or> (\<exists>kvs. data = JObj kvs \<and> map_of kvs ''group'' = None)
      \<or> (\<exists>xs. data = JList xs \<and> JStr ''group'' \<notin> set xs)
      \<or> (\<exists>s. data = JStr s \<and> \<not> str_contains s ''group'')
      \<longrightarrow> parse_orcid_works w data oid log = (log, Inr []))
   \<and> ((\<exists>i. data = JInt i \<and> i \<noteq> 0) \<or> data = JBool True
      \<longrightarrow> parse_orcid_works w data oid log = (log, Inl TypeError))
   \<and> (py_get g ''work-summary'' (JList []) = Inr (JList [])
       \<or> (\<exists>rest. py_get g ''work-summary'' (JList []) = Inr (JList (JNull # rest)))
      \<longrightarrow> process_group w oid g log = (log, Inr None)
          \<and> process_groups w oid (g # gs) pubs log = process_groups w oid gs pubs log)"
  by (auto simp: parse_orcid_works_def process_group_def first_summary_def)

theorem parse_orcid_works_malformed_witness:
  "parse_orcid_works (fixed_world RequestFailed RequestFailed RequestFailed) JNull ''0000'' []
     = ([], Inr [])
   \<and> parse_orcid_works (fixed_world RequestFailed RequestFailed RequestFailed)
        (JObj [(''error'', JStr ''not found'')]) ''0000'' [] = ([], Inr [])
   \<and> parse_orcid_works (fixed_world RequestFailed RequestFailed RequestFailed)
        (JList [JStr ''error'']) ''0000'' [] = ([], Inr [])
   \<and> parse_orcid_works (fixed_world RequestFailed RequestFailed RequestFailed)
        (JStr ''error'') ''0000'' [] = ([], Inr [])
   \<and> parse_orcid_works (fixed_world RequestFailed RequestFailed RequestFailed)
        (JInt 5) ''0000'' [] = ([], Inl TypeError)
   \<and> process_group (fixed_world RequestFailed RequestFailed RequestFailed) ''0000''
        (JObj [(''work-summary'', JList [])]) [] = ([], Inr None)
   \<and> process_group (fixed_world RequestFailed RequestFailed RequestFailed) ''0000''
        (JObj [(''work-summary'', JList [JNull, JObj summary_foo])]) [] = ([], Inr None)"
proof -
  let ?w = "fixed_world RequestFailed RequestFailed RequestFailed"
  let ?g = "JObj [(''work-summary'', JList [])]"
  let ?h = "JObj [(''work-summary'', JList [JNull, JObj summary_foo])]"
  note t = parse_orcid_works_malformed [where w = ?w and oid = "''0000''" and log = "[]"]
  have 1: "parse_orcid_works ?w JNull ''0000'' [] = ([], Inr [])"
    using t [where data = JNull and g = ?g] by simp
  have 2: "parse_orcid_works ?w (JObj [(''error'', JStr ''not found'')]) ''0000'' [] = ([], Inr [])"
    using t [where data = "JObj [(''error'', JStr ''not found'')]" and g = ?g] by simp
  have 3: "parse_orcid_works ?w (JList [JStr ''error'']) ''0000'' [] = ([], Inr [])"
    using t [where data = "JList [JStr ''error'']" and g = ?g] by simp
  have 4: "parse_orcid_works ?w (JStr ''error'') ''0000'' [] = ([], Inr [])"
    using t [where data = "JStr ''error''" and g = ?g] by simp
  have 5: "parse_orcid_works ?w (JInt 5) ''0000'' [] = ([], Inl TypeError)"
    using t [where data = "JInt 5" and g = ?g] by simp
  have 6: "process_group ?w ''0000'' ?g [] = ([], Inr None)"
    using t [where data = JNull and g = ?g] by simp
  have 7: "process_group ?w ''0000'' ?h [] = ([], Inr None)"
    using t [where data = JNull and g = ?h] by simp
  from 1 2 3 4 5 6 7 show ?thesis by simp
qed


section \<open>The year of a CrossRef record\<close>

lemma falsy_index0: "\<not> truthy v \<Longrightarrow> \<exists>e. py_index0 v = Inl e"
  by (cases v) auto

lemma date_year_spec: "date_year d = Inr y \<Longrightarrow> y = spec_date_year d"
proof (cases d)
  case (JObj kvs)
  assume a: "date_year d = Inr y"
  show ?thesis
  proof (cases "map_of kvs ''date-parts''")
    case None
    with a JObj show ?thesis by (simp add: date_year_def spec_date_year_def)
  next
    case (Some parts)
    with a JObj obtain pub_date where p: "py_index0 parts = Inr pub_date"
      by (auto simp: date_year_def bind_res_eq_Inr)
    show ?thesis
    proof (cases "truthy pub_date")
      case True
      with a JObj Some p show ?thesis
        by (auto simp: date_year_def spec_date_year_def bind_res_eq_Inr)
    next
      case False
      with falsy_index0 obtain e where "py_index0 pub_date = Inl e" by blast
      with a JObj Some p False show ?thesis
        by (auto simp: date_year_def spec_date_year_def)
    qed
  qed
qed (simp_all add: date_year_def)

lemma crossref_year_spec: "crossref_year (JObj m) = Inr y \<Longrightarrow> y = spec_year m"
  by (auto simp: crossref_year_def spec_year_def bind_res_eq_Inr date_year_spec
           split: if_splits option.splits)

lemma crossref_extract_year:
  "crossref_extract w data = Inr (Some c) \<Longrightarrow>
   \<exists>message. py_getitem data ''message'' = Inr message
      \<and> crossref_year message = Inr (cr_year c)
      \<and> (\<exists>d. py_get message ''DOI'' JNull = Inr d)"
  by (auto simp: crossref_extract_def bind_res_eq_Inr split: if_splits)

lemma py_get_dict: "py_get v k d = Inr x \<Longrightarrow> \<exists>kvs. v = JObj kvs"
  by (cases v) auto

lemma crossref_extract_message:
  "crossref_extract w data = Inr (Some c) \<Longrightarrow>
   \<exists>m. py_getitem data ''message'' = Inr (JObj m) \<and> crossref_year (JObj m) = Inr (cr_year c)"
  using crossref_extract_year py_get_dict by blast

text \<open>
  C6. Whenever \<^verbatim>\<open>fetch_crossref_details\<close> returns a result, the response had a message
  that is a dict, and the year of the result is the one the specification describes:
  taken from \<^verbatim>\<open>published\<close> if the message has that key, otherwise from
  \<^verbatim>\<open>published-print\<close>, otherwise from \<^verbatim>\<open>published-online\<close>; it is the first element
  of the first date of the chosen key, and it is absent when the chosen key gives no
  date or none of the keys is there. A key that comes earlier decides even when later
  keys are present too.
\<close>

theorem crossref_year_priority:
  assumes "fetch_crossref_details w d log = (log1, Some c)"
  shows "\<exists>data m. http_crossref w log d = Body data
           \<and> py_getitem data ''message'' = Inr (JObj m)
           \<and> cr_year c = spec_year m"
proof -
  from assms obtain data where b: "http_crossref w log d = Body data"
    and e: "crossref_extract w data = Inr (Some c)"
    by (auto simp: fetch_crossref_details_def split: if_splits http_result.splits sum.splits)
  from crossref_extract_message [OF e] obtain m
    where "py_getitem data ''message'' = Inr (JObj m)" "crossref_year (JObj m) = Inr (cr_year c)"
    by blast
  with b crossref_year_spec show ?thesis by blast
qed

theorem crossref_year_priority_witness:
  "fetch_crossref_details (fixed_world RequestFailed RequestFailed (Body crossref_foo))
      (JStr ''10.1/x'') [] = ([CrossrefGet (JStr ''10.1/x'')], Some result_foo)
   \<and> cr_year result_foo = spec_year ((''type'', JStr ''journal-article'') # message_foo)
   \<and> spec_year ((''type'', JStr ''journal-article'') # message_foo) = Some (JInt 2020)"
proof -
  let ?w = "fixed_world RequestFailed RequestFailed (Body crossref_foo)"
  have h: "fetch_crossref_details ?w (JStr ''10.1/x'') []
             = ([CrossrefGet (JStr ''10.1/x'')], Some result_foo)"
    by code_simp
  have s: "spec_year ((''type'', JStr ''journal-article'') # message_foo) = Some (JInt 2020)"
    by code_simp
  from crossref_year_priority [OF h] obtain data m where
    "http_crossref ?w [] (JStr ''10.1/x'') = Body data"
    "py_getitem data ''message'' = Inr (JObj m)" "cr_year result_foo = spec_year m"
    by blast
  then have "cr_year result_foo = spec_year ((''type'', JStr ''journal-article'') # message_foo)"
    by (auto simp: fixed_world_def crossref_foo_def)
  with h s show ?thesis by simp
qed

section \<open>The exit code\<close>

text \<open>With the Google Scholar branch switched off, \<^verbatim>\<open>main\<close> is the ORCID branch.\<close>

lemma main_orcid:
  "main w log =
     (case http_orcid_works w log ORCID_ID of
        RequestFailed \<Rightarrow> (log @ [OrcidWorksGet ORCID_ID], Inr 1)
      | Raised e \<Rightarrow> (log @ [OrcidWorksGet ORCID_ID], Inl e)
      | Body data \<Rightarrow>
          if \<not> truthy data then (log @ [OrcidWorksGet ORCID_ID], Inr 1)
          else
            (case parse_orcid_works w data ORCID_ID (log @ [OrcidWorksGet ORCID_ID]) of
               (log2, Inl e) \<Rightarrow> (log2, Inl e)
             | (log2, Inr ps) \<Rightarrow>
                 if ps = [] then (log2, Inr 1)
                 else
                   (log2 @ [FileWrite (OUTPUT_FILE w)
                      (envelope (utcnow_isoformat w log2) (map json_of_publication ps))],
                    case write_file w log2 (OUTPUT_FILE w)
                           (envelope (utcnow_isoformat w log2) (map json_of_publication ps)) of
                      Some e \<Rightarrow> Inl e
                    | None \<Rightarrow> Inr 0)))"
  by (simp add: main_def USE_GOOGLE_SCHOLAR_def fetch_orcid_publications_def
        save_publications_def Let_def
      split: http_result.splits sum.splits prod.splits option.splits)

text \<open>
  C8. \<^verbatim>\<open>main\<close> returns 0 exactly when the works fetch gives truthy data, parsing it
  gives at least one publication and the file is written; the log then ends with that
  write. When the works fetch fails, \<^verbatim>\<open>main\<close> returns 1 and the only event is the fetch,
  so no file is written. When parsing gives no publication, \<^verbatim>\<open>main\<close> returns 1 as well.
\<close>

theorem main_exit_code:
  "(main w log = (lg, Inr 0) \<longleftrightarrow>
      (\<exists>data log2 ps.
          http_orcid_works w log ORCID_ID = Body data \<and> truthy data
        \<and> parse_orcid_works w data ORCID_ID (log @ [OrcidWorksGet ORCID_ID]) = (log2, Inr ps)
        \<and> ps \<noteq> []
        \<and> write_file w log2 (OUTPUT_FILE w)
             (envelope (utcnow_isoformat w log2) (map json_of_publication ps)) = None
        \<and> lg = log2 @ [FileWrite (OUTPUT_FILE w)
             (envelope (utcnow_isoformat w log2) (map json_of_publication ps))]))
   \<and> (http_orcid_works w log ORCID_ID = RequestFailed
        \<longrightarrow> main w log = (log @ [OrcidWorksGet ORCID_ID], Inr 1))
   \<and> (\<forall>data log2.
          http_orcid_works w log ORCID_ID = Body data \<and> truthy data
        \<and> parse_orcid_works w data ORCID_ID (log @ [OrcidWorksGet ORCID_ID]) = (log2, Inr [])
        \<longrightarrow> main w log = (log2, Inr 1))"
  unfolding main_orcid
  by (auto split: http_result.splits sum.splits prod.splits option.splits if_splits)

theorem main_exit_code_witness:
  "main (fixed_world RequestFailed RequestFailed RequestFailed) []
     = ([OrcidWorksGet ORCID_ID], Inr 1)
   \<and> main (fixed_world (Body (works_of [group_preprint])) RequestFailed RequestFailed) []
     = ([OrcidWorksGet ORCID_ID], Inr 1)
   \<and> main (fixed_world (Body (works_of [group_foo])) RequestFailed (Body crossref_foo)) []
     = ([OrcidWorksGet ORCID_ID, CrossrefGet (JStr ''10.1/x''), Sleep,
         FileWrite ''/repo/src/data/publications.json''
           (envelope ''2024-01-01T00:00:00''
              [json_of_publication (merge_crossref provisional_foo result_foo)])],
        Inr 0)"
proof -
  let ?w0 = "fixed_world RequestFailed RequestFailed RequestFailed"
  let ?w1 = "fixed_world (Body (works_of [group_preprint])) RequestFailed RequestFailed"
  let ?w2 = "fixed_world (Body (works_of [group_foo])) RequestFailed (Body crossref_foo)"
  let ?log2 = "[OrcidWorksGet ORCID_ID, CrossrefGet (JStr ''10.1/x''), Sleep]"
  have a: "http_orcid_works ?w0 [] ORCID_ID = RequestFailed"
    by (simp add: fixed_world_def)
  have b1: "http_orcid_works ?w1 [] ORCID_ID = Body (works_of [group_preprint])"
    by (simp add: fixed_world_def)
  have b2: "truthy (works_of [group_preprint])"
    by (simp add: works_of_def)
  have b3: "parse_orcid_works ?w1 (works_of [group_preprint]) ORCID_ID [OrcidWorksGet ORCID_ID]
              = ([OrcidWorksGet ORCID_ID], Inr [])"
    by code_simp
  have c1: "http_orcid_works ?w2 [] ORCID_ID = Body (works_of [group_foo])"
    by (simp add: fixed_world_def)
  have c2: "truthy (works_of [group_foo])"
    by (simp add: works_of_def)
  have c3: "parse_orcid_works ?w2 (works_of [group_foo]) ORCID_ID [OrcidWorksGet ORCID_ID]
              = (?log2, Inr [merge_crossref provisional_foo result_foo])"
    by code_simp
  have c4: "write_file ?w2 l f d = None" for l f d
    by (simp add: fixed_world_def)
  have c5: "OUTPUT_FILE ?w2 = ''/repo/src/data/publications.json''"
    by (simp add: OUTPUT_FILE_def fixed_world_def)
  have c6: "utcnow_isoformat ?w2 l = ''2024-01-01T00:00:00''" for l
    by (simp add: fixed_world_def)
  from main_exit_code [of ?w0 "[]"] a
  have 1: "main ?w0 [] = ([OrcidWorksGet ORCID_ID], Inr 1)" by simp
  from main_exit_code [of ?w1 "[]"] b1 b2 b3
  have 2: "main ?w1 [] = ([OrcidWorksGet ORCID_ID], Inr 1)" by simp
  from main_exit_code [of ?w2 "[]" "?log2 @ [FileWrite ''/repo/src/data/publications.json''
           (envelope ''2024-01-01T00:00:00''
              [json_of_publication (merge_crossref provisional_foo result_foo)])]"]
  have 3: "main ?w2 [] = (?log2 @ [FileWrite ''/repo/src/data/publications.json''
           (envelope ''2024-01-01T00:00:00''
              [json_of_publication (merge_crossref provisional_foo result_foo)])], Inr 0)"
    by (simp add: c1 c2 c3 c4 c5 c6)
  from 1 2 3 show ?thesis by simp
qed

section \<open>The authors of an emitted publication\<close>





lemma process_group_emitted:
  assumes "process_group w oid g log = (log2, Inr (Some q))"
  shows "\<exists>ws s p. first_summary g = Inr (Some ws) \<and> read_summary ws = Inr s
           \<and> provisional w ws s = Inr p \<and> enrich w oid s p log = (log2, Inr (Some q))
           \<and> truthy (s_title s) \<and> truthy (s_year s) \<and> s_pub_type s \<noteq> JStr ''preprint''"
  using assms
  by (auto simp: process_group_def bind_res_eq_Inr
      split: sum.splits option.splits if_splits prod.splits)



section \<open>The retention test\<close>

text \<open>
  C1 does not hold on the code. The work \<open>group_foo_undated\<close> has a title and a DOI
  but no publication date in ORCID, and CrossRef supplies the year 2020. After the merge
  the record has both a title and a year, yet \<^verbatim>\<open>parse_orcid_works\<close> returns the empty
  list: line 385 tests the locals read from ORCID, not the merged record.
\<close>

theorem retention_failing_input:
  "read_summary (JObj summary_foo) = Inr locals_foo_undated
   \<and> provisional (fixed_world RequestFailed RequestFailed (Body crossref_foo))
        (JObj summary_foo) locals_foo_undated = Inr (provisional_foo \<lparr> year := JNull \<rparr>)
   \<and> enrich (fixed_world RequestFailed RequestFailed (Body crossref_foo)) ''0000''
        locals_foo_undated (provisional_foo \<lparr> year := JNull \<rparr>) []
     = ([CrossrefGet (JStr ''10.1/x''), Sleep],
        Inr (Some (merge_crossref provisional_foo result_foo)))
   \<and> title (merge_crossref provisional_foo result_foo) = JStr ''Foo''
   \<and> year (merge_crossref provisional_foo result_foo) = JInt 2020
   \<and> parse_orcid_works (fixed_world RequestFailed RequestFailed (Body crossref_foo))
        (works_of [group_foo_undated]) ''0000'' []
     = ([CrossrefGet (JStr ''10.1/x''), Sleep], Inr [])"
  by code_simp

text \<open>What line 385 tests: an emitted publication had a truthy ORCID title and year.\<close>

lemma retained_by_orcid_fields:
  assumes "process_group w oid g log = (log2, Inr (Some q))"
  shows "\<exists>ws s. first_summary g = Inr (Some ws) \<and> read_summary ws = Inr s
           \<and> truthy (s_title s) \<and> truthy (s_year s)"
  using process_group_emitted [OF assms] by blast

end
